theory Spec2Isabelle
  imports Main
begin

section \<open>JavaScript values, errors and the world the runner acts on\<close>

text \<open>
  The embedding of \<^verbatim>\<open>packages/js/dist/runner.js\<close>: the class \<^verbatim>\<open>Workspace\<close> and the
  module function \<^verbatim>\<open>getConfigAndFn\<close>.

  A JavaScript value is a primitive, a function or a reference to an object in the heap.
  Only \<^verbatim>\<open>typeof\<close>, strict equality and the property \<^verbatim>\<open>network\<close> of an object are
  observed by the code, so the payload of a number is kept as an integer. The functions
  are the default callback of \<^verbatim>\<open>init\<close> (the arrow function \<^verbatim>\<open>async () => ({})\<close>) and
  the functions of the caller.
\<close>

datatype fn = DefaultInitFn | UserFn nat

datatype jsval =
    JUndefined
  | JNull
  | JBool bool
  | JNumber int
  | JBigInt int
  | JString string
  | JSymbol string
  | JFunction fn
  | JObject nat

datatype error = Error string | TypeError

text \<open>
  An object holds its own properties and says whether it is extensible. An own data
  property has a value and is writable or not: a frozen object has no writable property
  and is not extensible, a sealed one is not extensible. Every other property is
  \<open>CallerCode\<close>: an accessor (a getter, a setter, one of them, none), a property found on
  the prototype chain, a trap of a proxy. What a read or a write of such a property
  answers, and what it does to the world, is code of the caller and a parameter of the
  model (the record \<open>caller\<close> below).
\<close>

datatype property = DataProperty jsval bool | CallerCode

record obj =
  props :: "string \<rightharpoonup> property"
  extensible :: bool

text \<open>
  A promise is modelled by how it settles: fulfilled with a value, rejected with an error,
  or never settled. An \<^verbatim>\<open>await\<close> of the first continues with the value, of the second
  rejects the promise of the enclosing \<^verbatim>\<open>async\<close> function, of the third leaves it
  pending for ever.
\<close>

datatype 'a outcome = Fulfilled 'a | Rejected error | Pending

text \<open>
  What the code does to its surroundings is logged: a read of the environment variable,
  the call of \<^verbatim>\<open>WorkspaceContainer.create\<close>, and the three suspensions of the instance
  methods. Containers of the runtime module are opaque and known by a number.
\<close>

datatype event =
    ReadEnv
  | CreateContainer jsval jsval
  | AwaitReady
  | AwaitCreateFrom nat
  | AwaitContainerClone nat jsval

record world =
  env :: "string option"
  heap :: "nat \<Rightarrow> obj"
  next_free :: nat
  trace :: "event list"

text \<open>
  The module \<^verbatim>\<open>./runtime\<close> is not part of the sources at hand; what its
  \<^verbatim>\<open>WorkspaceContainer\<close> answers is a parameter of the model.
\<close>

record caller =
  caller_get :: "nat \<Rightarrow> string \<Rightarrow> world \<Rightarrow> (error + jsval) \<times> world"
  caller_set :: "nat \<Rightarrow> string \<Rightarrow> jsval \<Rightarrow> world \<Rightarrow> (error + unit) \<times> world"

record runtime =
  WorkspaceContainer_create :: "jsval \<Rightarrow> jsval \<Rightarrow> nat outcome"
  createFrom :: "nat \<Rightarrow> nat outcome"
  container_clone :: "nat \<Rightarrow> jsval \<Rightarrow> unit outcome"
  config_network :: "nat \<Rightarrow> jsval"

record workspace =
  ready :: "unit outcome"
  container :: "nat option"

type_synonym 'a result = "(error + 'a) \<times> world"

definition log :: "event \<Rightarrow> world \<Rightarrow> world" where
  "log e w = w\<lparr>trace := trace w @ [e]\<rparr>"

fun typeof :: "jsval \<Rightarrow> string" where
  "typeof JUndefined = ''undefined''"
| "typeof JNull = ''object''"
| "typeof (JBool _) = ''boolean''"
| "typeof (JNumber _) = ''number''"
| "typeof (JBigInt _) = ''bigint''"
| "typeof (JString _) = ''string''"
| "typeof (JSymbol _) = ''symbol''"
| "typeof (JFunction _) = ''function''"
| "typeof (JObject _) = ''object''"

text \<open>
  Reading the property \<open>k\<close> of the object at \<open>p\<close>: the value of an own data property,
  \<^verbatim>\<open>undefined\<close> where there is none, the answer of the caller's code otherwise.
\<close>

definition get_property :: "caller \<Rightarrow> nat \<Rightarrow> string \<Rightarrow> world \<Rightarrow> jsval result" where
  "get_property cc p k w =
     (case props (heap w p) k of
        None \<Rightarrow> (Inr JUndefined, w)
      | Some (DataProperty v _) \<Rightarrow> (Inr v, w)
      | Some CallerCode \<Rightarrow> caller_get cc p k w)"

definition store_property :: "nat \<Rightarrow> string \<Rightarrow> jsval \<Rightarrow> world \<Rightarrow> world" where
  "store_property p k v w =
     w\<lparr>heap := (heap w)(p := (heap w p)\<lparr>props := (props (heap w p))(k \<mapsto> DataProperty v True)\<rparr>)\<rparr>"

text \<open>
  Assigning to the property \<open>k\<close> of the object at \<open>p\<close> in strict mode, as the file is
  (\<^verbatim>\<open>"use strict"\<close>): a writable own data property takes the value, a new property is
  added to an extensible object, and the assignment throws a \<^verbatim>\<open>TypeError\<close> where the
  property is not writable or cannot be added.
\<close>

definition put_property :: "caller \<Rightarrow> nat \<Rightarrow> string \<Rightarrow> jsval \<Rightarrow> world \<Rightarrow> unit result" where
  "put_property cc p k v w =
     (case props (heap w p) k of
        None \<Rightarrow>
          if extensible (heap w p) then (Inr (), store_property p k v w) else (Inl TypeError, w)
      | Some (DataProperty _ writable) \<Rightarrow>
          if writable then (Inr (), store_property p k v w) else (Inl TypeError, w)
      | Some CallerCode \<Rightarrow> caller_set cc p k v w)"

definition new_object :: "world \<Rightarrow> nat \<times> world" where
  "new_object w =
     (next_free w,
      w\<lparr>heap := (heap w)(next_free w := \<lparr>props = Map.empty, extensible = True\<rparr>),
        next_free := Suc (next_free w)\<rparr>)"

section \<open>The static methods\<close>

definition env_invalid_message :: "string \<Rightarrow> string" where
  "env_invalid_message network =
     ''environment variable NEAR_WORKSPACES_NETWORK='' @ network @ '' invalid; ''
       @ ''use '' @ [CHR 0x27] @ ''testnet'' @ [CHR 0x27] @ '' or '' @ [CHR 0x27] @ ''sandbox''
       @ [CHR 0x27] @ '' (the default)''"

definition getNetworkFromEnv :: "world \<Rightarrow> string result" where
  "getNetworkFromEnv w =
     (let w1 = log ReadEnv w in
      case env w of
        None \<Rightarrow> (Inr ''sandbox'', w1)
      | Some network \<Rightarrow>
          if network = ''sandbox'' \<or> network = ''testnet'' then (Inr network, w1)
          else (Inl (Error (env_invalid_message network)), w1))"

definition networkIsTestnet :: "world \<Rightarrow> bool result" where
  "networkIsTestnet w =
     (case getNetworkFromEnv w of
        (Inl e, w1) \<Rightarrow> (Inl e, w1)
      | (Inr n, w1) \<Rightarrow> (Inr (n = ''testnet''), w1))"

definition networkIsSandbox :: "world \<Rightarrow> bool result" where
  "networkIsSandbox w =
     (case getNetworkFromEnv w of
        (Inl e, w1) \<Rightarrow> (Inl e, w1)
      | (Inr n, w1) \<Rightarrow> (Inr (n = ''sandbox''), w1))"

definition invalid_arguments_message :: string where
  "invalid_arguments_message =
     ''Invalid arguments! '' @ ''Expected '' @ [CHR 0x60] @ ''(config, runFunction)'' @ [CHR 0x60]
       @ '' or just '' @ [CHR 0x60] @ ''(runFunction)'' @ [CHR 0x60]"

definition getConfigAndFn :: "jsval \<Rightarrow> jsval \<Rightarrow> world \<Rightarrow> (jsval \<times> jsval) result" where
  "getConfigAndFn configOrFunction f w =
     (let type1 = typeof configOrFunction; type2 = typeof f in
      if type1 = ''function'' \<and> type2 = ''undefined'' then
        (let (p, w1) = new_object w in (Inr (JObject p, configOrFunction), w1))
      else if type1 = ''object'' \<and> (type2 = ''function'' \<or> type2 = ''undefined'') then
        (Inr (configOrFunction, f), w)
      else (Inl (Error invalid_arguments_message), w))"

text \<open>
  The constructor stores the promise of \<^verbatim>\<open>startWaiting\<close>, which sets the field
  \<^verbatim>\<open>container\<close> once the container promise is fulfilled.
\<close>

definition startWaiting :: "nat outcome \<Rightarrow> workspace" where
  "startWaiting containerPromise =
     (case containerPromise of
        Fulfilled c \<Rightarrow> \<lparr>ready = Fulfilled (), container = Some c\<rparr>
      | Rejected e \<Rightarrow> \<lparr>ready = Rejected e, container = None\<rparr>
      | Pending \<Rightarrow> \<lparr>ready = Pending, container = None\<rparr>)"

definition new_Workspace :: "nat outcome \<Rightarrow> workspace" where
  "new_Workspace workspaceContainerPromise = startWaiting workspaceContainerPromise"

text \<open>
  \<^verbatim>\<open>init\<close>: an undefined first argument takes the default callback; the property
  \<^verbatim>\<open>network\<close> of the configuration is read (a \<^verbatim>\<open>TypeError\<close> when the configuration is
  \<^verbatim>\<open>null\<close>, the one value of type \<^verbatim>\<open>object\<close> that is no object), the environment is
  asked only when that property is \<^verbatim>\<open>null\<close> or \<^verbatim>\<open>undefined\<close>, and the result is
  assigned to the property on every path, also when it is the value just read. The
  container is created only after the assignment went through. The configuration that \<open>getConfigAndFn\<close> returns is of type
  \<^verbatim>\<open>object\<close>, so the last branch is taken by \<^verbatim>\<open>null\<close> alone. The method is called
  on the class, as \<^verbatim>\<open>Workspace.init(...)\<close>, so \<^verbatim>\<open>this\<close> is \<^verbatim>\<open>Workspace\<close>.
\<close>

definition default_parameter :: "jsval \<Rightarrow> jsval" where
  "default_parameter configOrFunction =
     (if configOrFunction = JUndefined then JFunction DefaultInitFn else configOrFunction)"

definition init ::
  "runtime \<Rightarrow> caller \<Rightarrow> jsval \<Rightarrow> jsval \<Rightarrow> world \<Rightarrow> workspace result" where
  "init rt cc configOrFunction f w =
     (let cof = default_parameter configOrFunction in
      case getConfigAndFn cof f w of
        (Inl e, w1) \<Rightarrow> (Inl e, w1)
      | (Inr (config, fn), w1) \<Rightarrow>
          (case config of
             JObject p \<Rightarrow>
               (case get_property cc p ''network'' w1 of
                  (Inl e, w2) \<Rightarrow> (Inl e, w2)
                | (Inr a, w2) \<Rightarrow>
                    (case (if a \<noteq> JNull \<and> a \<noteq> JUndefined then (Inr a, w2)
                           else (case getNetworkFromEnv w2 of
                                   (Inl e, w3) \<Rightarrow> (Inl e, w3)
                                 | (Inr n, w3) \<Rightarrow> (Inr (JString n), w3))) of
                       (Inl e, w3) \<Rightarrow> (Inl e, w3)
                     | (Inr v, w3) \<Rightarrow>
                         (case put_property cc p ''network'' v w3 of
                            (Inl e, w4) \<Rightarrow> (Inl e, w4)
                          | (Inr _, w4) \<Rightarrow>
                              (Inr (new_Workspace (WorkspaceContainer_create rt config fn)),
                               log (CreateContainer config fn) w4))))
           | _ \<Rightarrow> (Inl TypeError, w1)))"

section \<open>The instance methods\<close>

text \<open>
  An \<^verbatim>\<open>async\<close> method never throws to its caller: it answers a promise, here the way
  that promise settles, together with the world after the events it caused.
\<close>

definition clone :: "runtime \<Rightarrow> workspace \<Rightarrow> jsval \<Rightarrow> world \<Rightarrow> nat outcome \<times> world" where
  "clone rt this fn w =
     (let w1 = log AwaitReady w in
      case ready this of
        Rejected e \<Rightarrow> (Rejected e, w1)
      | Pending \<Rightarrow> (Pending, w1)
      | Fulfilled _ \<Rightarrow>
          (case container this of
             None \<Rightarrow> (Rejected TypeError, w1)
           | Some c \<Rightarrow>
               (let w2 = log (AwaitCreateFrom c) w1 in
                case createFrom rt c of
                  Rejected e \<Rightarrow> (Rejected e, w2)
                | Pending \<Rightarrow> (Pending, w2)
                | Fulfilled d \<Rightarrow>
                    (let w3 = log (AwaitContainerClone d fn) w2 in
                     case container_clone rt d fn of
                       Rejected e \<Rightarrow> (Rejected e, w3)
                     | Pending \<Rightarrow> (Pending, w3)
                     | Fulfilled _ \<Rightarrow> (Fulfilled d, w3)))))"

text \<open>The answer \<^verbatim>\<open>null\<close> of \<^verbatim>\<open>cloneSandbox\<close> is \<open>None\<close>, a container is \<open>Some\<close>.\<close>

definition cloneSandbox ::
  "runtime \<Rightarrow> workspace \<Rightarrow> jsval \<Rightarrow> world \<Rightarrow> nat option outcome \<times> world" where
  "cloneSandbox rt this fn w =
     (let w1 = log AwaitReady w in
      case ready this of
        Rejected e \<Rightarrow> (Rejected e, w1)
      | Pending \<Rightarrow> (Pending, w1)
      | Fulfilled _ \<Rightarrow>
          (case container this of
             None \<Rightarrow> (Rejected TypeError, w1)
           | Some c \<Rightarrow>
               if config_network rt c = JString ''sandbox'' then
                 (case clone rt this fn w1 of
                    (Fulfilled d, w2) \<Rightarrow> (Fulfilled (Some d), w2)
                  | (Rejected e, w2) \<Rightarrow> (Rejected e, w2)
                  | (Pending, w2) \<Rightarrow> (Pending, w2))
               else (Fulfilled None, w1)))"



section \<open>Concrete worlds and runtimes\<close>

text \<open>
  A world with an empty heap and a given value of the environment variable, and a runtime
  whose promises are all fulfilled, for evaluating the methods on concrete inputs.
\<close>

definition empty_object :: obj where
  "empty_object = \<lparr>props = Map.empty, extensible = True\<rparr>"

definition initial_world :: "string option \<Rightarrow> world" where
  "initial_world e = \<lparr>env = e, heap = (\<lambda>_. empty_object), next_free = 0, trace = []\<rparr>"

text \<open>
  A caller whose property \<^verbatim>\<open>network\<close>, where it is the caller's code, is an accessor
  with a getter that answers a fixed value and no setter.
\<close>

definition getter_only :: "jsval \<Rightarrow> caller" where
  "getter_only v =
     \<lparr>caller_get = (\<lambda>p k w. (Inr v, w)), caller_set = (\<lambda>p k x w. (Inl TypeError, w))\<rparr>"

text \<open>
  The configuration \<^verbatim>\<open>{network: 'testnet', rootAccount: 'me.testnet'}\<close> at the
  reference 3, as it is and frozen by \<^verbatim>\<open>Object.freeze\<close>, and the configuration
  \<^verbatim>\<open>{rootAccount: 'me.testnet'}\<close>.
\<close>

definition testnet_config :: "bool \<Rightarrow> obj" where
  "testnet_config frozen =
     \<lparr>props = [''network'' \<mapsto> DataProperty (JString ''testnet'') (\<not> frozen),
               ''rootAccount'' \<mapsto> DataProperty (JString ''me.testnet'') (\<not> frozen)],
      extensible = (\<not> frozen)\<rparr>"

definition root_config :: obj where
  "root_config = \<lparr>props = [''rootAccount'' \<mapsto> DataProperty (JString ''me.testnet'') True],
                  extensible = True\<rparr>"

definition world_with :: "string option \<Rightarrow> obj \<Rightarrow> world" where
  "world_with e ob =
     \<lparr>env = e, heap = (\<lambda>_. empty_object)(3 := ob), next_free = 4, trace = []\<rparr>"

definition fulfilling_runtime :: "string \<Rightarrow> runtime" where
  "fulfilling_runtime network =
     \<lparr>WorkspaceContainer_create = (\<lambda>config fn. Fulfilled 0),
      createFrom = (\<lambda>c. Fulfilled (Suc c)),
      container_clone = (\<lambda>d fn. Fulfilled ()),
      config_network = (\<lambda>c. JString network)\<rparr>"

text \<open>The events a method added to the log of the world it started in.\<close>

definition events_since :: "world \<Rightarrow> world \<Rightarrow> event list" where
  "events_since w w' = drop (length (trace w)) (trace w')"

section \<open>Steps of the static constructor\<close>

lemma getConfigAndFn_object:
  "typeof f = ''function'' \<or> typeof f = ''undefined'' \<Longrightarrow>
   getConfigAndFn (JObject p) f w = (Inr (JObject p, f), w)"
  by (auto simp: getConfigAndFn_def)

lemma store_property_same:
  "props (heap w p) k = Some (DataProperty v True) \<Longrightarrow> store_property p k v w = w"
  by (simp add: store_property_def map_upd_triv)

lemma init_object:
  "typeof f = ''function'' \<or> typeof f = ''undefined'' \<Longrightarrow>
   init rt cc (JObject p) f w =
     (case get_property cc p ''network'' w of
        (Inl e, w2) \<Rightarrow> (Inl e, w2)
      | (Inr a, w2) \<Rightarrow>
          (case (if a \<noteq> JNull \<and> a \<noteq> JUndefined then (Inr a, w2)
                 else (case getNetworkFromEnv w2 of
                         (Inl e, w3) \<Rightarrow> (Inl e, w3)
                       | (Inr n, w3) \<Rightarrow> (Inr (JString n), w3))) of
             (Inl e, w3) \<Rightarrow> (Inl e, w3)
           | (Inr v, w3) \<Rightarrow>
               (case put_property cc p ''network'' v w3 of
                  (Inl e, w4) \<Rightarrow> (Inl e, w4)
                | (Inr _, w4) \<Rightarrow>
                    (Inr (new_Workspace (WorkspaceContainer_create rt (JObject p) f)),
                     log (CreateContainer (JObject p) f) w4))))"
  by (simp add: init_def default_parameter_def getConfigAndFn_object Let_def)

lemma messages_differ: "env_invalid_message v \<noteq> invalid_arguments_message"
  by (simp add: env_invalid_message_def invalid_arguments_message_def)




lemmas concrete_defs = world_with_def initial_world_def testnet_config_def root_config_def
  empty_object_def fulfilling_runtime_def getter_only_def new_Workspace_def startWaiting_def

lemmas run_defs = init_def getConfigAndFn_def default_parameter_def Let_def new_object_def
  get_property_def put_property_def store_property_def log_def getNetworkFromEnv_def

section \<open>The network of the environment\<close>

text \<open>
  C1. \<^verbatim>\<open>getNetworkFromEnv\<close> answers \<^verbatim>\<open>sandbox\<close> when the variable
  \<^verbatim>\<open>NEAR_WORKSPACES_NETWORK\<close> is unset, the value itself when it is \<^verbatim>\<open>sandbox\<close> or
  \<^verbatim>\<open>testnet\<close>, and throws an error for every other value.
\<close>

theorem getNetworkFromEnv_cases:
  "(env w = None \<longrightarrow> fst (getNetworkFromEnv w) = Inr ''sandbox'') \<and>
   (env w = Some ''sandbox'' \<longrightarrow> fst (getNetworkFromEnv w) = Inr ''sandbox'') \<and>
   (env w = Some ''testnet'' \<longrightarrow> fst (getNetworkFromEnv w) = Inr ''testnet'') \<and>
   (\<forall>v. env w = Some v \<and> v \<noteq> ''sandbox'' \<and> v \<noteq> ''testnet'' \<longrightarrow>
        fst (getNetworkFromEnv w) = Inl (Error (env_invalid_message v)))"
  by (simp add: getNetworkFromEnv_def Let_def)

theorem getNetworkFromEnv_cases_witness:
  "fst (getNetworkFromEnv (initial_world None)) = Inr ''sandbox'' \<and>
   fst (getNetworkFromEnv (initial_world (Some ''sandbox''))) = Inr ''sandbox'' \<and>
   fst (getNetworkFromEnv (initial_world (Some ''testnet''))) = Inr ''testnet'' \<and>
   fst (getNetworkFromEnv (initial_world (Some ''mainnet''))) =
     Inl (Error (env_invalid_message ''mainnet''))"
  using getNetworkFromEnv_cases [of "initial_world None"]
    getNetworkFromEnv_cases [of "initial_world (Some ''sandbox'')"]
    getNetworkFromEnv_cases [of "initial_world (Some ''testnet'')"]
    getNetworkFromEnv_cases [of "initial_world (Some ''mainnet'')"]
  by (simp add: initial_world_def)

text \<open>
  C10. Whenever \<^verbatim>\<open>getNetworkFromEnv\<close> returns, \<^verbatim>\<open>networkIsTestnet\<close> and
  \<^verbatim>\<open>networkIsSandbox\<close> return too, exactly one of the two answers is true, and
  \<^verbatim>\<open>networkIsTestnet\<close> is true exactly when the value of the variable is
  \<^verbatim>\<open>testnet\<close>.
\<close>

theorem network_predicates_exclusive:
  "fst (getNetworkFromEnv w) = Inr n \<Longrightarrow>
   \<exists>t s. fst (networkIsTestnet w) = Inr t \<and> fst (networkIsSandbox w) = Inr s \<and>
         t \<noteq> s \<and> (t \<longleftrightarrow> env w = Some ''testnet'')"
  by (auto simp: networkIsTestnet_def networkIsSandbox_def getNetworkFromEnv_def Let_def
      split: option.splits if_splits)

theorem network_predicates_exclusive_witness:
  "fst (getNetworkFromEnv (initial_world (Some ''testnet''))) = Inr ''testnet'' \<and>
   fst (networkIsTestnet (initial_world (Some ''testnet''))) = Inr True \<and>
   fst (networkIsSandbox (initial_world (Some ''testnet''))) = Inr False"
proof -
  have h: "fst (getNetworkFromEnv (initial_world (Some ''testnet''))) = Inr ''testnet''"
    by (simp add: getNetworkFromEnv_def initial_world_def)
  from network_predicates_exclusive [OF h]
  obtain t s where "fst (networkIsTestnet (initial_world (Some ''testnet''))) = Inr t"
    and "fst (networkIsSandbox (initial_world (Some ''testnet''))) = Inr s"
    and "t \<noteq> s" and "t \<longleftrightarrow> env (initial_world (Some ''testnet'')) = Some ''testnet''"
    by blast
  then show ?thesis using h by (simp add: initial_world_def)
qed

section \<open>The arguments of the static constructor\<close>

text \<open>
  C2, as the code has it. \<^verbatim>\<open>init\<close> throws the error \<^verbatim>\<open>Invalid arguments\<close>, and leaves
  the world as it was, for every pair of arguments whose first is by \<^verbatim>\<open>typeof\<close> neither
  a function nor an object (a number, a string, \<^verbatim>\<open>undefined\<close>), but for the pair of two
  \<^verbatim>\<open>undefined\<close>; for every function, given or taken by default, with a second argument
  that is not \<^verbatim>\<open>undefined\<close>, a second function for example; and for every first argument
  of type \<^verbatim>\<open>object\<close>, \<^verbatim>\<open>null\<close> among them, with a second argument that is neither a
  function nor \<^verbatim>\<open>undefined\<close>. Called with two \<^verbatim>\<open>undefined\<close>, that is with no argument,
  it never throws that error. Called with \<^verbatim>\<open>null\<close> and a function or nothing, it throws
  a \<^verbatim>\<open>TypeError\<close>.
\<close>

theorem init_invalid_arguments:
  "((typeof a \<noteq> ''function'' \<and> typeof a \<noteq> ''object'' \<and> \<not> (a = JUndefined \<and> f = JUndefined)) \<or>
    ((typeof a = ''function'' \<or> a = JUndefined) \<and> f \<noteq> JUndefined) \<or>
    (typeof a = ''object'' \<and> typeof f \<noteq> ''function'' \<and> f \<noteq> JUndefined) \<longrightarrow>
      init rt cc a f w = (Inl (Error invalid_arguments_message), w)) \<and>
   fst (init rt cc JUndefined JUndefined w) \<noteq> Inl (Error invalid_arguments_message) \<and>
   (a = JNull \<and> (typeof f = ''function'' \<or> f = JUndefined) \<longrightarrow>
      init rt cc a f w = (Inl TypeError, w))"
proof (intro conjI impI)
  assume "(typeof a \<noteq> ''function'' \<and> typeof a \<noteq> ''object'' \<and> \<not> (a = JUndefined \<and> f = JUndefined)) \<or>
    ((typeof a = ''function'' \<or> a = JUndefined) \<and> f \<noteq> JUndefined) \<or>
    (typeof a = ''object'' \<and> typeof f \<noteq> ''function'' \<and> f \<noteq> JUndefined)"
  then show "init rt cc a f w = (Inl (Error invalid_arguments_message), w)"
    by (cases a; cases f)
       (auto simp: init_def getConfigAndFn_def default_parameter_def Let_def)
next
  show "fst (init rt cc JUndefined JUndefined w) \<noteq> Inl (Error invalid_arguments_message)"
    by (auto simp: init_def getConfigAndFn_def default_parameter_def Let_def new_object_def
        get_property_def put_property_def store_property_def log_def getNetworkFromEnv_def
        messages_differ split: option.splits if_splits)
next
  assume "a = JNull \<and> (typeof f = ''function'' \<or> f = JUndefined)"
  then show "init rt cc a f w = (Inl TypeError, w)"
    by (auto simp: init_def getConfigAndFn_def default_parameter_def Let_def)
qed

theorem init_invalid_arguments_witness:
  "init (fulfilling_runtime ''sandbox'') (getter_only JUndefined) (JNumber 7) JUndefined
       (initial_world None) =
     (Inl (Error invalid_arguments_message), initial_world None) \<and>
   init (fulfilling_runtime ''sandbox'') (getter_only JUndefined) (JString ''config'')
       (JFunction (UserFn 1)) (initial_world None) =
     (Inl (Error invalid_arguments_message), initial_world None) \<and>
   init (fulfilling_runtime ''sandbox'') (getter_only JUndefined) (JFunction (UserFn 1))
       (JFunction (UserFn 2)) (initial_world None) =
     (Inl (Error invalid_arguments_message), initial_world None) \<and>
   init (fulfilling_runtime ''sandbox'') (getter_only JUndefined) JUndefined (JNumber 5)
       (initial_world None) =
     (Inl (Error invalid_arguments_message), initial_world None) \<and>
   init (fulfilling_runtime ''sandbox'') (getter_only JUndefined) JNull (JNumber 5)
       (initial_world None) =
     (Inl (Error invalid_arguments_message), initial_world None) \<and>
   init (fulfilling_runtime ''sandbox'') (getter_only JUndefined) JNull (JFunction (UserFn 1))
       (initial_world None) =
     (Inl TypeError, initial_world None)"
  using init_invalid_arguments [of "JNumber 7" JUndefined "fulfilling_runtime ''sandbox''"
      "getter_only JUndefined" "initial_world None"]
    init_invalid_arguments [of "JString ''config''" "JFunction (UserFn 1)"
      "fulfilling_runtime ''sandbox''" "getter_only JUndefined" "initial_world None"]
    init_invalid_arguments [of "JFunction (UserFn 1)" "JFunction (UserFn 2)"
      "fulfilling_runtime ''sandbox''" "getter_only JUndefined" "initial_world None"]
    init_invalid_arguments [of JUndefined "JNumber 5"
      "fulfilling_runtime ''sandbox''" "getter_only JUndefined" "initial_world None"]
    init_invalid_arguments [of JNull "JNumber 5"
      "fulfilling_runtime ''sandbox''" "getter_only JUndefined" "initial_world None"]
    init_invalid_arguments [of JNull "JFunction (UserFn 1)"
      "fulfilling_runtime ''sandbox''" "getter_only JUndefined" "initial_world None"]
  by simp

text \<open>
  Read for every first argument, C2 fails where no argument is given at all:
  \<^verbatim>\<open>undefined\<close> is neither a function nor an object, the default parameter takes its
  place, and \<^verbatim>\<open>init\<close> returns a workspace.
\<close>

theorem init_no_arguments_counterexample:
  "typeof JUndefined \<noteq> ''function'' \<and> typeof JUndefined \<noteq> ''object'' \<and>
   fst (init (fulfilling_runtime ''sandbox'') (getter_only JUndefined) JUndefined JUndefined
         (initial_world None)) =
     Inr \<lparr>ready = Fulfilled (), container = Some 0\<rparr>"
  by (simp add: run_defs concrete_defs)

text \<open>
  C3. Called with a function only, the arguments resolve to a new empty object as the
  configuration and the function as the run function; when the environment names a
  network, \<^verbatim>\<open>init\<close> creates the container from that object, now holding the network
  alone, and that function.
\<close>

theorem init_function_only:
  "getConfigAndFn (JFunction g) JUndefined w =
     (Inr (JObject (next_free w), JFunction g),
      w\<lparr>heap := (heap w)(next_free w := \<lparr>props = Map.empty, extensible = True\<rparr>),
        next_free := Suc (next_free w)\<rparr>) \<and>
   (\<forall>n. fst (getNetworkFromEnv w) = Inr n \<longrightarrow>
      init rt cc (JFunction g) JUndefined w =
        (Inr (new_Workspace (WorkspaceContainer_create rt (JObject (next_free w)) (JFunction g))),
         w\<lparr>heap := (heap w)(next_free w :=
               \<lparr>props = [''network'' \<mapsto> DataProperty (JString n) True], extensible = True\<rparr>),
           next_free := Suc (next_free w),
           trace := trace w @ [ReadEnv, CreateContainer (JObject (next_free w)) (JFunction g)]\<rparr>))"
  by (auto simp: init_def getConfigAndFn_def default_parameter_def Let_def new_object_def
      get_property_def put_property_def store_property_def
      getNetworkFromEnv_def log_def split: option.splits if_splits)

theorem init_function_only_witness:
  "getConfigAndFn (JFunction (UserFn 1)) JUndefined (initial_world (Some ''testnet'')) =
     (Inr (JObject 0, JFunction (UserFn 1)),
      (initial_world (Some ''testnet''))
        \<lparr>heap := (\<lambda>_. empty_object)(0 := \<lparr>props = Map.empty, extensible = True\<rparr>),
         next_free := Suc 0\<rparr>) \<and>
   init (fulfilling_runtime ''testnet'') (getter_only JUndefined) (JFunction (UserFn 1))
       JUndefined (initial_world (Some ''testnet'')) =
     (Inr \<lparr>ready = Fulfilled (), container = Some 0\<rparr>,
      \<lparr>env = Some ''testnet'',
       heap = (\<lambda>_. empty_object)(0 :=
         \<lparr>props = [''network'' \<mapsto> DataProperty (JString ''testnet'') True], extensible = True\<rparr>),
       next_free = Suc 0,
       trace = [ReadEnv, CreateContainer (JObject 0) (JFunction (UserFn 1))]\<rparr>)"
  using init_function_only [of "UserFn 1" "initial_world (Some ''testnet'')"
      "fulfilling_runtime ''testnet''" "getter_only JUndefined"]
  by (simp add: initial_world_def fulfilling_runtime_def getNetworkFromEnv_def log_def
      new_Workspace_def startWaiting_def)

text \<open>
  C4. Called with a configuration object and a function, the arguments resolve to that
  very object and that very function, and the world is as before. A workspace that
  \<^verbatim>\<open>init\<close> returns was made by creating the container from the two. \<^verbatim>\<open>init\<close> does
  return one where the network of the object is set and writable, leaving the heap as it
  was, and where the network is missing on an extensible object, or \<^verbatim>\<open>null\<close> or
  \<^verbatim>\<open>undefined\<close> and writable, and the environment names a network, storing that network
  in the object and nothing else. Whether it returns or throws, on an object whose
  network is not code of the caller every other object, every other property of the
  object and its extensibility are as before.
\<close>

theorem init_config_and_function:
  "getConfigAndFn (JObject p) (JFunction g) w = (Inr (JObject p, JFunction g), w) \<and>
   (\<forall>ws w'. init rt cc (JObject p) (JFunction g) w = (Inr ws, w') \<longrightarrow>
      ws = new_Workspace (WorkspaceContainer_create rt (JObject p) (JFunction g)) \<and>
      last (trace w') = CreateContainer (JObject p) (JFunction g)) \<and>
   (\<forall>a. props (heap w p) ''network'' = Some (DataProperty a True) \<and> a \<noteq> JNull \<and> a \<noteq> JUndefined \<longrightarrow>
      init rt cc (JObject p) (JFunction g) w =
        (Inr (new_Workspace (WorkspaceContainer_create rt (JObject p) (JFunction g))),
         w\<lparr>trace := trace w @ [CreateContainer (JObject p) (JFunction g)]\<rparr>)) \<and>
   (\<forall>n. (props (heap w p) ''network'' = None \<and> extensible (heap w p) \<or>
         props (heap w p) ''network'' = Some (DataProperty JNull True) \<or>
         props (heap w p) ''network'' = Some (DataProperty JUndefined True)) \<and>
        fst (getNetworkFromEnv w) = Inr n \<longrightarrow>
      init rt cc (JObject p) (JFunction g) w =
        (Inr (new_Workspace (WorkspaceContainer_create rt (JObject p) (JFunction g))),
         w\<lparr>heap := (heap w)(p := (heap w p)
              \<lparr>props := (props (heap w p))(''network'' \<mapsto> DataProperty (JString n) True)\<rparr>),
           trace := trace w @ [ReadEnv, CreateContainer (JObject p) (JFunction g)]\<rparr>)) \<and>
   (props (heap w p) ''network'' \<noteq> Some CallerCode \<longrightarrow>
      (\<forall>q. q \<noteq> p \<longrightarrow> heap (snd (init rt cc (JObject p) (JFunction g) w)) q = heap w q) \<and>
      (\<forall>k. k \<noteq> ''network'' \<longrightarrow>
           props (heap (snd (init rt cc (JObject p) (JFunction g) w)) p) k = props (heap w p) k) \<and>
      extensible (heap (snd (init rt cc (JObject p) (JFunction g) w)) p) = extensible (heap w p))"
proof -
  have f: "typeof (JFunction g) = ''function'' \<or> typeof (JFunction g) = ''undefined''"
    by simp
  note io = init_object [OF f]
  have c1: "getConfigAndFn (JObject p) (JFunction g) w = (Inr (JObject p, JFunction g), w)"
    by (simp add: getConfigAndFn_def)
  have c2: "\<forall>ws w'. init rt cc (JObject p) (JFunction g) w = (Inr ws, w') \<longrightarrow>
      ws = new_Workspace (WorkspaceContainer_create rt (JObject p) (JFunction g)) \<and>
      last (trace w') = CreateContainer (JObject p) (JFunction g)"
    by (auto simp: io log_def split: prod.splits sum.splits if_splits)
  have c3: "\<forall>a. props (heap w p) ''network'' = Some (DataProperty a True) \<and> a \<noteq> JNull \<and> a \<noteq> JUndefined \<longrightarrow>
      init rt cc (JObject p) (JFunction g) w =
        (Inr (new_Workspace (WorkspaceContainer_create rt (JObject p) (JFunction g))),
         w\<lparr>trace := trace w @ [CreateContainer (JObject p) (JFunction g)]\<rparr>)"
    by (simp add: io get_property_def put_property_def store_property_same log_def)
  have c4: "\<forall>n. (props (heap w p) ''network'' = None \<and> extensible (heap w p) \<or>
         props (heap w p) ''network'' = Some (DataProperty JNull True) \<or>
         props (heap w p) ''network'' = Some (DataProperty JUndefined True)) \<and>
        fst (getNetworkFromEnv w) = Inr n \<longrightarrow>
      init rt cc (JObject p) (JFunction g) w =
        (Inr (new_Workspace (WorkspaceContainer_create rt (JObject p) (JFunction g))),
         w\<lparr>heap := (heap w)(p := (heap w p)
              \<lparr>props := (props (heap w p))(''network'' \<mapsto> DataProperty (JString n) True)\<rparr>),
           trace := trace w @ [ReadEnv, CreateContainer (JObject p) (JFunction g)]\<rparr>)"
    by (auto simp: io get_property_def put_property_def store_property_def
        getNetworkFromEnv_def log_def Let_def split: option.splits if_splits)
  have c5: "props (heap w p) ''network'' \<noteq> Some CallerCode \<longrightarrow>
      (\<forall>q. q \<noteq> p \<longrightarrow> heap (snd (init rt cc (JObject p) (JFunction g) w)) q = heap w q) \<and>
      (\<forall>k. k \<noteq> ''network'' \<longrightarrow>
           props (heap (snd (init rt cc (JObject p) (JFunction g) w)) p) k = props (heap w p) k) \<and>
      extensible (heap (snd (init rt cc (JObject p) (JFunction g) w)) p) = extensible (heap w p)"
    by (auto simp: io get_property_def put_property_def store_property_def
        getNetworkFromEnv_def log_def Let_def split: option.splits property.splits if_splits)
  from c1 c2 c3 c4 c5 show ?thesis by (intro conjI)
qed

theorem init_config_and_function_witness:
  "getConfigAndFn (JObject 3) (JFunction (UserFn 1))
       (world_with (Some ''sandbox'') (testnet_config False)) =
     (Inr (JObject 3, JFunction (UserFn 1)), world_with (Some ''sandbox'') (testnet_config False)) \<and>
   init (fulfilling_runtime ''testnet'') (getter_only JUndefined) (JObject 3)
       (JFunction (UserFn 1)) (world_with (Some ''sandbox'') (testnet_config False)) =
     (Inr \<lparr>ready = Fulfilled (), container = Some 0\<rparr>,
      \<lparr>env = Some ''sandbox'', heap = (\<lambda>_. empty_object)(3 := testnet_config False),
       next_free = 4, trace = [CreateContainer (JObject 3) (JFunction (UserFn 1))]\<rparr>) \<and>
   init (fulfilling_runtime ''testnet'') (getter_only JUndefined) (JObject 3)
       (JFunction (UserFn 1)) (world_with (Some ''testnet'') root_config) =
     (Inr \<lparr>ready = Fulfilled (), container = Some 0\<rparr>,
      \<lparr>env = Some ''testnet'',
       heap = (\<lambda>_. empty_object)(3 :=
         \<lparr>props = [''rootAccount'' \<mapsto> DataProperty (JString ''me.testnet'') True,
                   ''network'' \<mapsto> DataProperty (JString ''testnet'') True],
          extensible = True\<rparr>),
       next_free = 4,
       trace = [ReadEnv, CreateContainer (JObject 3) (JFunction (UserFn 1))]\<rparr>)"
proof -
  let ?rt = "fulfilling_runtime ''testnet''" and ?cc = "getter_only JUndefined"
  let ?w1 = "world_with (Some ''sandbox'') (testnet_config False)"
  let ?w2 = "world_with (Some ''testnet'') root_config"
  have 1: "getConfigAndFn (JObject 3) (JFunction (UserFn 1)) ?w1 =
      (Inr (JObject 3, JFunction (UserFn 1)), ?w1)"
    by (rule init_config_and_function [THEN conjunct1])
  have 2: "init ?rt ?cc (JObject 3) (JFunction (UserFn 1)) ?w1 =
      (Inr (new_Workspace (WorkspaceContainer_create ?rt (JObject 3) (JFunction (UserFn 1)))),
       ?w1\<lparr>trace := trace ?w1 @ [CreateContainer (JObject 3) (JFunction (UserFn 1))]\<rparr>)"
    by (rule init_config_and_function [THEN conjunct2, THEN conjunct2, THEN conjunct1,
          rule_format, where a = "JString ''testnet''"])
       (simp add: concrete_defs)
  have 3: "init ?rt ?cc (JObject 3) (JFunction (UserFn 1)) ?w2 =
      (Inr (new_Workspace (WorkspaceContainer_create ?rt (JObject 3) (JFunction (UserFn 1)))),
       ?w2\<lparr>heap := (heap ?w2)(3 := (heap ?w2 3)
            \<lparr>props := (props (heap ?w2 3))
               (''network'' \<mapsto> DataProperty (JString ''testnet'') True)\<rparr>),
          trace := trace ?w2 @ [ReadEnv, CreateContainer (JObject 3) (JFunction (UserFn 1))]\<rparr>)"
    by (rule init_config_and_function [THEN conjunct2, THEN conjunct2, THEN conjunct2,
          THEN conjunct1, rule_format])
       (simp add: concrete_defs getNetworkFromEnv_def)
  from 1 2 3 show ?thesis
    by (simp add: concrete_defs)
qed

text \<open>
  C9. Called with \<^verbatim>\<open>null\<close> and a function, \<^verbatim>\<open>init\<close> does not throw the error
  \<^verbatim>\<open>Invalid arguments\<close>: \<^verbatim>\<open>typeof null\<close> is \<^verbatim>\<open>object\<close>, so the classifier returns
  \<^verbatim>\<open>null\<close> as the configuration and the function as the run function. What \<^verbatim>\<open>init\<close>
  throws then is the \<^verbatim>\<open>TypeError\<close> of reading a property of \<^verbatim>\<open>null\<close>.
\<close>

theorem init_null_config_not_invalid_arguments:
  "getConfigAndFn JNull (JFunction g) w = (Inr (JNull, JFunction g), w) \<and>
   init rt cc JNull (JFunction g) w = (Inl TypeError, w) \<and>
   fst (init rt cc JNull (JFunction g) w) \<noteq> Inl (Error invalid_arguments_message)"
  by (simp add: init_def getConfigAndFn_def default_parameter_def)

section \<open>The network of the configuration\<close>

text \<open>
  C8, as the code has it. For a configuration object and a second argument that is a
  function or \<^verbatim>\<open>undefined\<close>, where the property \<^verbatim>\<open>network\<close> is an own data property
  or missing. When it is missing, \<^verbatim>\<open>null\<close> or \<^verbatim>\<open>undefined\<close>, \<^verbatim>\<open>init\<close> reads the
  environment; where that names a network and the object takes the assignment (the
  property is writable, or missing on an extensible object), the network is stored in that
  very object of the heap, every other property and every other object as before, and the
  container is created from the same reference; where the object refuses the assignment,
  \<^verbatim>\<open>init\<close> throws a \<^verbatim>\<open>TypeError\<close> and the heap is as before; where the environment
  names no network, its error is thrown and the heap is as before. When the property is
  set and writable, the heap is as before, the environment is not read and the container
  is created; when it is set and not writable, as on a frozen object, \<^verbatim>\<open>init\<close> throws
  a \<^verbatim>\<open>TypeError\<close>, the world as before. Whatever the property is, a workspace that
  \<^verbatim>\<open>init\<close> returns was made by creating the container from the reference it was given.
\<close>

theorem init_network_frame:
  assumes f: "typeof f = ''function'' \<or> typeof f = ''undefined''"
  shows
  "(\<forall>a acc.
      (props (heap w p) ''network'' = None \<and> acc = extensible (heap w p) \<or>
       props (heap w p) ''network'' = Some (DataProperty a acc) \<and> (a = JNull \<or> a = JUndefined)) \<longrightarrow>
      (\<forall>n. fst (getNetworkFromEnv w) = Inr n \<longrightarrow>
         init rt cc (JObject p) f w =
           (if acc then
              (Inr (new_Workspace (WorkspaceContainer_create rt (JObject p) f)),
               w\<lparr>heap := (heap w)(p := (heap w p)
                    \<lparr>props := (props (heap w p))(''network'' \<mapsto> DataProperty (JString n) True)\<rparr>),
                 trace := trace w @ [ReadEnv, CreateContainer (JObject p) f]\<rparr>)
            else (Inl TypeError, w\<lparr>trace := trace w @ [ReadEnv]\<rparr>))) \<and>
      (\<forall>e. fst (getNetworkFromEnv w) = Inl e \<longrightarrow>
         init rt cc (JObject p) f w = (Inl e, w\<lparr>trace := trace w @ [ReadEnv]\<rparr>))) \<and>
   (\<forall>a acc.
      props (heap w p) ''network'' = Some (DataProperty a acc) \<and> a \<noteq> JNull \<and> a \<noteq> JUndefined \<longrightarrow>
      init rt cc (JObject p) f w =
        (if acc then
           (Inr (new_Workspace (WorkspaceContainer_create rt (JObject p) f)),
            w\<lparr>trace := trace w @ [CreateContainer (JObject p) f]\<rparr>)
         else (Inl TypeError, w))) \<and>
   (\<forall>ws w'. init rt cc (JObject p) f w = (Inr ws, w') \<longrightarrow>
      ws = new_Workspace (WorkspaceContainer_create rt (JObject p) f) \<and>
      last (trace w') = CreateContainer (JObject p) f)"
proof (intro conjI allI impI)
  fix a acc n
  assume "props (heap w p) ''network'' = None \<and> acc = extensible (heap w p) \<or>
       props (heap w p) ''network'' = Some (DataProperty a acc) \<and> (a = JNull \<or> a = JUndefined)"
    and "fst (getNetworkFromEnv w) = Inr n"
  then show "init rt cc (JObject p) f w =
           (if acc then
              (Inr (new_Workspace (WorkspaceContainer_create rt (JObject p) f)),
               w\<lparr>heap := (heap w)(p := (heap w p)
                    \<lparr>props := (props (heap w p))(''network'' \<mapsto> DataProperty (JString n) True)\<rparr>),
                 trace := trace w @ [ReadEnv, CreateContainer (JObject p) f]\<rparr>)
            else (Inl TypeError, w\<lparr>trace := trace w @ [ReadEnv]\<rparr>))"
    by (auto simp: init_object [OF f] get_property_def put_property_def store_property_def
        getNetworkFromEnv_def log_def Let_def split: option.splits if_splits)
next
  fix a acc e
  assume "props (heap w p) ''network'' = None \<and> acc = extensible (heap w p) \<or>
       props (heap w p) ''network'' = Some (DataProperty a acc) \<and> (a = JNull \<or> a = JUndefined)"
    and "fst (getNetworkFromEnv w) = Inl e"
  then show "init rt cc (JObject p) f w = (Inl e, w\<lparr>trace := trace w @ [ReadEnv]\<rparr>)"
    by (auto simp: init_object [OF f] get_property_def
        getNetworkFromEnv_def log_def Let_def split: option.splits if_splits)
next
  fix a acc
  assume a: "props (heap w p) ''network'' = Some (DataProperty a acc) \<and> a \<noteq> JNull \<and> a \<noteq> JUndefined"
  show "init rt cc (JObject p) f w =
        (if acc then
           (Inr (new_Workspace (WorkspaceContainer_create rt (JObject p) f)),
            w\<lparr>trace := trace w @ [CreateContainer (JObject p) f]\<rparr>)
         else (Inl TypeError, w))"
  proof (cases acc)
    case True
    with a have "store_property p ''network'' a w = w"
      by (simp add: store_property_same)
    with a True show ?thesis
      by (simp add: init_object [OF f] get_property_def put_property_def log_def)
  next
    case False
    with a show ?thesis
      by (simp add: init_object [OF f] get_property_def put_property_def)
  qed
next
  fix ws w'
  assume "init rt cc (JObject p) f w = (Inr ws, w')"
  then show "ws = new_Workspace (WorkspaceContainer_create rt (JObject p) f)"
    by (auto simp: init_object [OF f] split: prod.splits sum.splits if_splits)
next
  fix ws w'
  assume "init rt cc (JObject p) f w = (Inr ws, w')"
  then show "last (trace w') = CreateContainer (JObject p) f"
    by (auto simp: init_object [OF f] log_def split: prod.splits sum.splits if_splits)
qed

theorem init_network_frame_witness:
  "init (fulfilling_runtime ''sandbox'') (getter_only JUndefined) (JObject 3) JUndefined
       (world_with (Some ''testnet'') root_config) =
     (Inr \<lparr>ready = Fulfilled (), container = Some 0\<rparr>,
      \<lparr>env = Some ''testnet'',
       heap = (\<lambda>_. empty_object)(3 :=
         \<lparr>props = [''rootAccount'' \<mapsto> DataProperty (JString ''me.testnet'') True,
                   ''network'' \<mapsto> DataProperty (JString ''testnet'') True],
          extensible = True\<rparr>),
       next_free = 4,
       trace = [ReadEnv, CreateContainer (JObject 3) JUndefined]\<rparr>) \<and>
   init (fulfilling_runtime ''sandbox'') (getter_only JUndefined) (JObject 3) JUndefined
       (world_with (Some ''mainnet'') (testnet_config False)) =
     (Inr \<lparr>ready = Fulfilled (), container = Some 0\<rparr>,
      \<lparr>env = Some ''mainnet'', heap = (\<lambda>_. empty_object)(3 := testnet_config False),
       next_free = 4, trace = [CreateContainer (JObject 3) JUndefined]\<rparr>) \<and>
   init (fulfilling_runtime ''sandbox'') (getter_only JUndefined) (JObject 3) JUndefined
       (world_with (Some ''mainnet'') (testnet_config True)) =
     (Inl TypeError, world_with (Some ''mainnet'') (testnet_config True))"
proof -
  let ?rt = "fulfilling_runtime ''sandbox''" and ?cc = "getter_only JUndefined"
  let ?w1 = "world_with (Some ''testnet'') root_config"
  let ?w2 = "world_with (Some ''mainnet'') (testnet_config False)"
  let ?w3 = "world_with (Some ''mainnet'') (testnet_config True)"
  have f: "typeof JUndefined = ''function'' \<or> typeof JUndefined = ''undefined''"
    by simp
  have 1: "init ?rt ?cc (JObject 3) JUndefined ?w1 =
      (if True then
         (Inr (new_Workspace (WorkspaceContainer_create ?rt (JObject 3) JUndefined)),
          ?w1\<lparr>heap := (heap ?w1)(3 := (heap ?w1 3)
               \<lparr>props := (props (heap ?w1 3))
                  (''network'' \<mapsto> DataProperty (JString ''testnet'') True)\<rparr>),
             trace := trace ?w1 @ [ReadEnv, CreateContainer (JObject 3) JUndefined]\<rparr>)
       else (Inl TypeError, ?w1\<lparr>trace := trace ?w1 @ [ReadEnv]\<rparr>))"
    by (rule init_network_frame [OF f, THEN conjunct1, rule_format, THEN conjunct1, rule_format,
          where a = JUndefined])
       (simp_all add: concrete_defs getNetworkFromEnv_def)
  have 2: "init ?rt ?cc (JObject 3) JUndefined ?w2 =
      (if True then
         (Inr (new_Workspace (WorkspaceContainer_create ?rt (JObject 3) JUndefined)),
          ?w2\<lparr>trace := trace ?w2 @ [CreateContainer (JObject 3) JUndefined]\<rparr>)
       else (Inl TypeError, ?w2))"
    by (rule init_network_frame [OF f, THEN conjunct2, THEN conjunct1, rule_format,
          where a = "JString ''testnet''"])
       (simp add: concrete_defs)
  have 3: "init ?rt ?cc (JObject 3) JUndefined ?w3 =
      (if False then
         (Inr (new_Workspace (WorkspaceContainer_create ?rt (JObject 3) JUndefined)),
          ?w3\<lparr>trace := trace ?w3 @ [CreateContainer (JObject 3) JUndefined]\<rparr>)
       else (Inl TypeError, ?w3))"
    by (rule init_network_frame [OF f, THEN conjunct2, THEN conjunct1, rule_format,
          where a = "JString ''testnet''"])
       (simp add: concrete_defs)
  from 1 2 3 show ?thesis
    by (simp add: concrete_defs)
qed

text \<open>
  Read for every configuration object, C8 fails at the frozen configuration
  \<^verbatim>\<open>Object.freeze({network: 'testnet', rootAccount: 'me.testnet'})\<close>: the network is set,
  and the object is not passed on, \<^verbatim>\<open>init\<close> throws a \<^verbatim>\<open>TypeError\<close>.
\<close>

theorem init_frozen_config_counterexample:
  "props (testnet_config True) ''network'' = Some (DataProperty (JString ''testnet'') False) \<and>
   init (fulfilling_runtime ''testnet'') (getter_only JUndefined) (JObject 3)
       (JFunction (UserFn 1)) (world_with None (testnet_config True)) =
     (Inl TypeError, world_with None (testnet_config True))"
  by (simp add: run_defs concrete_defs)

section \<open>Errors of the static constructor\<close>




section \<open>Running code in a workspace\<close>

text \<open>
  C7. \<^verbatim>\<open>clone\<close> suspends in sequence. Its first event is always the wait for
  readiness. It asks a container for a derived one only after readiness is fulfilled, and
  that container is the one of the workspace. It hands the callback to the
  \<^verbatim>\<open>clone\<close> of a container only after that, and only to the derived container that
  \<^verbatim>\<open>createFrom\<close> was fulfilled with; the callback is the one it was given. Where it is
  fulfilled, it is with that derived container, after exactly these three events, and it
  is fulfilled whenever the three promises are.
\<close>

theorem clone_sequential:
  "(\<exists>rest. events_since w (snd (clone rt this fn w)) = AwaitReady # rest) \<and>
   (\<forall>c. AwaitCreateFrom c \<in> set (events_since w (snd (clone rt this fn w))) \<longrightarrow>
        ready this = Fulfilled () \<and> container this = Some c \<and>
        take 2 (events_since w (snd (clone rt this fn w))) = [AwaitReady, AwaitCreateFrom c]) \<and>
   (\<forall>d g. AwaitContainerClone d g \<in> set (events_since w (snd (clone rt this fn w))) \<longrightarrow>
        g = fn \<and> ready this = Fulfilled () \<and>
        (\<exists>c. container this = Some c \<and> createFrom rt c = Fulfilled d \<and>
             events_since w (snd (clone rt this fn w)) =
               [AwaitReady, AwaitCreateFrom c, AwaitContainerClone d fn])) \<and>
   (\<forall>d. fst (clone rt this fn w) = Fulfilled d \<longrightarrow>
        ready this = Fulfilled () \<and>
        (\<exists>c. container this = Some c \<and> createFrom rt c = Fulfilled d \<and>
             container_clone rt d fn = Fulfilled () \<and>
             events_since w (snd (clone rt this fn w)) =
               [AwaitReady, AwaitCreateFrom c, AwaitContainerClone d fn])) \<and>
   (\<forall>c d. ready this = Fulfilled () \<and> container this = Some c \<and>
          createFrom rt c = Fulfilled d \<and> container_clone rt d fn = Fulfilled () \<longrightarrow>
        clone rt this fn w =
          (Fulfilled d,
           w\<lparr>trace := trace w @ [AwaitReady, AwaitCreateFrom c, AwaitContainerClone d fn]\<rparr>))"
  by (auto simp: clone_def events_since_def log_def Let_def split: outcome.splits option.splits)

theorem clone_sequential_witness:
  "ready (new_Workspace (Fulfilled 4)) = Fulfilled () \<and>
   container (new_Workspace (Fulfilled 4)) = Some 4 \<and>
   createFrom (fulfilling_runtime ''sandbox'') 4 = Fulfilled 5 \<and>
   container_clone (fulfilling_runtime ''sandbox'') 5 (JFunction (UserFn 1)) = Fulfilled () \<and>
   clone (fulfilling_runtime ''sandbox'') (new_Workspace (Fulfilled 4)) (JFunction (UserFn 1))
       (initial_world None) =
     (Fulfilled 5,
      \<lparr>env = None, heap = (\<lambda>_. empty_object), next_free = 0,
       trace = [AwaitReady, AwaitCreateFrom 4, AwaitContainerClone 5 (JFunction (UserFn 1))]\<rparr>)"
proof -
  have h: "ready (new_Workspace (Fulfilled 4)) = Fulfilled () \<and>
      container (new_Workspace (Fulfilled 4)) = Some 4 \<and>
      createFrom (fulfilling_runtime ''sandbox'') 4 = Fulfilled 5 \<and>
      container_clone (fulfilling_runtime ''sandbox'') 5 (JFunction (UserFn 1)) = Fulfilled ()"
    by (simp add: new_Workspace_def startWaiting_def fulfilling_runtime_def)
  have "clone (fulfilling_runtime ''sandbox'') (new_Workspace (Fulfilled 4))
          (JFunction (UserFn 1)) (initial_world None) =
        (Fulfilled 5,
         (initial_world None)\<lparr>trace := trace (initial_world None) @
            [AwaitReady, AwaitCreateFrom 4, AwaitContainerClone 5 (JFunction (UserFn 1))]\<rparr>)"
    by (rule clone_sequential [THEN conjunct2, THEN conjunct2, THEN conjunct2, THEN conjunct2,
          rule_format]) (rule h)
  with h show ?thesis
    by (simp add: initial_world_def)
qed

text \<open>
  C5. On a workspace whose container is configured for \<^verbatim>\<open>testnet\<close>,
  \<^verbatim>\<open>cloneSandbox\<close> waits for readiness and does nothing else: the callback is handed
  to no container, no derived container is asked for, and the answer is \<^verbatim>\<open>null\<close>.
\<close>

theorem cloneSandbox_testnet_noop:
  "container (new_Workspace promise) = Some c \<Longrightarrow>
   config_network rt c = JString ''testnet'' \<Longrightarrow>
   cloneSandbox rt (new_Workspace promise) fn w = (Fulfilled None, w\<lparr>trace := trace w @ [AwaitReady]\<rparr>)"
  by (auto simp: cloneSandbox_def new_Workspace_def startWaiting_def log_def Let_def
      split: outcome.splits)

theorem cloneSandbox_testnet_noop_witness:
  "container (new_Workspace (Fulfilled 4)) = Some 4 \<and>
   config_network (fulfilling_runtime ''testnet'') 4 = JString ''testnet'' \<and>
   cloneSandbox (fulfilling_runtime ''testnet'') (new_Workspace (Fulfilled 4))
       (JFunction (UserFn 1)) (initial_world None) =
     (Fulfilled None, \<lparr>env = None, heap = (\<lambda>_. empty_object), next_free = 0, trace = [AwaitReady]\<rparr>)"
proof -
  have h1: "container (new_Workspace (Fulfilled 4)) = Some 4"
    by (simp add: new_Workspace_def startWaiting_def)
  have h2: "config_network (fulfilling_runtime ''testnet'') 4 = JString ''testnet''"
    by (simp add: fulfilling_runtime_def)
  show ?thesis
    using h1 h2 cloneSandbox_testnet_noop [OF h1 h2, of "JFunction (UserFn 1)" "initial_world None"]
    by (simp add: initial_world_def)
qed

end
